theory Spec2Isabelle
  imports Main "HOL-Library.AList" "HOL-Library.Sublist"
begin

section \<open>Python values\<close>

text \<open>
  The account registry (\<^verbatim>\<open>app/common/accounts.py\<close>) works on what
  \<^verbatim>\<open>json.load\<close> returns and on request payloads: \<^verbatim>\<open>None\<close>, booleans,
  integers, strings, lists and dictionaries. A dictionary is an association list in
  insertion order. Floating-point numbers are not represented.
\<close>

datatype json =
    JNull
  | JBool bool
  | JInt int
  | JStr string
  | JList "json list"
  | JDict "(string \<times> json) list"

type_synonym pydict = "(string \<times> json) list"

text \<open>
  The exceptions the modelled code can raise. \<^verbatim>\<open>ValidationError(message, code)\<close> is the
  class of the source; the others are Python's own.
\<close>

datatype error =
    ValidationError string nat
  | KeyError string
  | TypeError
  | AttributeError
  | OSError

text \<open>\<^verbatim>\<open>d.get(k)\<close>: the value, or \<^verbatim>\<open>None\<close> for a missing key.\<close>

definition dict_get :: "pydict \<Rightarrow> string \<Rightarrow> json" where
  "dict_get d k = (case map_of d k of None \<Rightarrow> JNull | Some v \<Rightarrow> v)"

text \<open>\<^verbatim>\<open>d.get(k, dflt)\<close>.\<close>

definition dict_get_default :: "pydict \<Rightarrow> string \<Rightarrow> json \<Rightarrow> json" where
  "dict_get_default d k dflt = (case map_of d k of None \<Rightarrow> dflt | Some v \<Rightarrow> v)"

text \<open>\<^verbatim>\<open>k in d\<close>.\<close>

definition has_key :: "pydict \<Rightarrow> string \<Rightarrow> bool" where
  "has_key d k = (case map_of d k of None \<Rightarrow> False | Some v \<Rightarrow> True)"

text \<open>\<^verbatim>\<open>d[k]\<close>, which raises \<^verbatim>\<open>KeyError\<close> for a missing key.\<close>

definition dict_item :: "pydict \<Rightarrow> string \<Rightarrow> error + json" where
  "dict_item d k = (case map_of d k of None \<Rightarrow> Inl (KeyError k) | Some v \<Rightarrow> Inr v)"

text \<open>
  \<^verbatim>\<open>d[k] = v\<close> is \<^term>\<open>AList.update k v d\<close>: an existing key keeps its place, a new
  key goes to the end.
\<close>

text \<open>
  Python's \<^verbatim>\<open>==\<close>. A boolean is an integer (\<^verbatim>\<open>True == 1\<close>); lists compare
  element by element; dictionaries compare as sets of keys with equal values.
\<close>

fun py_num :: "json \<Rightarrow> int option" where
  "py_num (JBool b) = Some (if b then 1 else 0)"
| "py_num (JInt i) = Some i"
| "py_num v = None"

fun py_eq :: "json \<Rightarrow> json \<Rightarrow> bool" where
  "py_eq JNull w = (w = JNull)"
| "py_eq (JBool b) w = (py_num w = Some (if b then 1 else 0))"
| "py_eq (JInt i) w = (py_num w = Some i)"
| "py_eq (JStr s) w = (w = JStr s)"
| "py_eq (JList xs) w =
     (case w of
        JList ys \<Rightarrow> list_all2 py_eq xs ys
      | _ \<Rightarrow> False)"
| "py_eq (JDict d) w =
     (case w of
        JDict e \<Rightarrow>
          (\<forall>k \<in> set (map fst e). has_key d k) \<and>
          (\<forall>(k, v) \<in> set d. case map_of e k of None \<Rightarrow> False
                                | Some v' \<Rightarrow> map_of d k = Some v \<longrightarrow> py_eq v v')
      | _ \<Rightarrow> False)"

text \<open>Python's truth value of an object, as \<^verbatim>\<open>if x\<close>, \<^verbatim>\<open>not x\<close> and \<^verbatim>\<open>x or y\<close> use it.\<close>

fun truthy :: "json \<Rightarrow> bool" where
  "truthy JNull = False"
| "truthy (JBool b) = b"
| "truthy (JInt i) = (i \<noteq> 0)"
| "truthy (JStr s) = (s \<noteq> [])"
| "truthy (JList xs) = (xs \<noteq> [])"
| "truthy (JDict d) = (d \<noteq> [])"

text \<open>\<^verbatim>\<open>x + 1\<close> for an object \<^verbatim>\<open>x\<close>: defined on integers and booleans only.\<close>

definition py_add_one :: "json \<Rightarrow> error + json" where
  "py_add_one v = (case py_num v of None \<Rightarrow> Inl TypeError | Some i \<Rightarrow> Inr (JInt (i + 1)))"

section \<open>Versioned update\<close>

text \<open>
  \<^verbatim>\<open>update_account_obj(account, cleaned, check_version)\<close> changes the dictionary
  \<^verbatim>\<open>account\<close> in place and returns it. The model returns the outcome together with the
  dictionary as the call leaves it, since an exception leaves the object behind too.
\<close>

definition merge_key :: "pydict \<Rightarrow> pydict \<Rightarrow> string \<Rightarrow> pydict" where
  "merge_key cleaned account key =
     (case map_of cleaned key of None \<Rightarrow> account | Some v \<Rightarrow> AList.update key v account)"

definition merged_keys :: "string list" where
  "merged_keys = [''name'', ''proxy'', ''autostart'', ''default_url'', ''notes'']"

definition version_differs :: "pydict \<Rightarrow> pydict \<Rightarrow> bool" where
  "version_differs account cleaned =
     (case map_of cleaned ''version'' of
        None \<Rightarrow> False
      | Some cv \<Rightarrow> \<not> py_eq (dict_get account ''version'') cv)"

definition update_account_obj :: "pydict \<Rightarrow> pydict \<Rightarrow> bool \<Rightarrow> (error + pydict) \<times> pydict" where
  "update_account_obj account cleaned check_version =
     (if check_version \<and> has_key cleaned ''version'' \<and> version_differs account cleaned
      then (Inl (ValidationError ''version conflict'' 1007), account)
      else
        let account1 = foldl (merge_key cleaned) account merged_keys in
        case py_add_one (dict_get_default account1 ''version'' (JInt 1)) of
          Inl e \<Rightarrow> (Inl e, account1)
        | Inr v \<Rightarrow>
            let account2 = AList.update ''version'' v account1
            in (Inr account2, account2))"


text \<open>
  A run of updates on the same account object, each with its own patch and
  \<^verbatim>\<open>check_version\<close> flag; the run stops at the first update that raises.
\<close>

fun apply_updates :: "pydict \<Rightarrow> (pydict \<times> bool) list \<Rightarrow> error + pydict" where
  "apply_updates account [] = Inr account"
| "apply_updates account (p # ps) =
     (case fst (update_account_obj account (fst p) (snd p)) of
        Inl e \<Rightarrow> Inl e
      | Inr account' \<Rightarrow> apply_updates account' ps)"

section \<open>Strings and paths\<close>

text \<open>\<^verbatim>\<open>str(n)\<close> for an integer: its decimal digits, with a minus sign when negative.\<close>

definition digit_char :: "nat \<Rightarrow> char" where
  "digit_char n = ''0123456789'' ! (n mod 10)"

function str_nat :: "nat \<Rightarrow> string" where
  "str_nat n = (if n < 10 then [digit_char n] else str_nat (n div 10) @ [digit_char n])"
  by pat_completeness auto
termination
  by (relation "measure (\<lambda>n. n)") auto

declare str_nat.simps [simp del]

definition str_int :: "int \<Rightarrow> string" where
  "str_int i = (if i < 0 then CHR ''-'' # str_nat (nat (- i)) else str_nat (nat i))"

text \<open>
  \<^verbatim>\<open>secrets.token_hex(3)\<close>: three random bytes, each written as two lower-case
  hexadecimal digits. The bytes drawn are an input of the model.
\<close>

definition hex_char :: "nat \<Rightarrow> char" where
  "hex_char n = ''0123456789abcdef'' ! (n mod 16)"

definition hex_byte :: "nat \<Rightarrow> string" where
  "hex_byte b = [hex_char ((b mod 256) div 16), hex_char (b mod 256)]"

definition token_hex :: "nat \<times> nat \<times> nat \<Rightarrow> string" where
  "token_hex bs = (case bs of (b0, b1, b2) \<Rightarrow> hex_byte b0 @ hex_byte b1 @ hex_byte b2)"

text \<open>
  \<^verbatim>\<open>s.strip()\<close> removes leading and trailing white space; \<^verbatim>\<open>s.lower()\<close> maps
  \<^verbatim>\<open>A\<close>..\<^verbatim>\<open>Z\<close> to lower case. Both are modelled on ASCII.
\<close>

definition is_space :: "char \<Rightarrow> bool" where
  "is_space c = (c \<in> set [CHR 0x20, CHR 0x09, CHR 0x0A, CHR 0x0B, CHR 0x0C, CHR 0x0D,
                          CHR 0x1C, CHR 0x1D, CHR 0x1E, CHR 0x1F])"

definition strip :: "string \<Rightarrow> string" where
  "strip s = rev (dropWhile is_space (rev (dropWhile is_space s)))"

definition lower_char :: "char \<Rightarrow> char" where
  "lower_char c =
     (let n = (of_char c :: nat) in if 65 \<le> n \<and> n \<le> 90 then char_of (n + 32) else c)"

definition lower :: "string \<Rightarrow> string" where
  "lower s = map lower_char s"

text \<open>\<^verbatim>\<open>os.path.join(a, b)\<close> on POSIX.\<close>

definition path_join :: "string \<Rightarrow> string \<Rightarrow> string" where
  "path_join a b =
     (if prefix ''/'' b then b
      else if a = [] \<or> suffix ''/'' a then a @ b
      else a @ ''/'' @ b)"

text \<open>The components of a path: the pieces between its separators.\<close>

fun path_parts :: "string \<Rightarrow> string list" where
  "path_parts [] = [[]]"
| "path_parts (c # cs) =
     (if c = CHR ''/'' then [] # path_parts cs
      else (case path_parts cs of [] \<Rightarrow> [[c]] | p # ps \<Rightarrow> (c # p) # ps))"

section \<open>Module constants\<close>

text \<open>
  \<^verbatim>\<open>DATA_DIR\<close> and \<^verbatim>\<open>DISPLAY\<close> come from the process environment when the module is
  imported; the other paths are joined from \<^verbatim>\<open>DATA_DIR\<close>.
\<close>

type_synonym environ = "string \<Rightarrow> string option"

definition DATA_DIR :: "environ \<Rightarrow> string" where
  "DATA_DIR env = (case env ''DATA_DIR'' of None \<Rightarrow> ''/data'' | Some d \<Rightarrow> d)"

definition PROFILES_DIR :: "environ \<Rightarrow> string" where
  "PROFILES_DIR env = path_join (DATA_DIR env) ''profiles''"

definition LOG_DIR :: "environ \<Rightarrow> string" where
  "LOG_DIR env = path_join (DATA_DIR env) ''logs''"

definition ACCOUNTS_FILE :: "environ \<Rightarrow> string" where
  "ACCOUNTS_FILE env = path_join (DATA_DIR env) ''accounts.json''"

definition LAUNCHER_LOG :: "environ \<Rightarrow> string" where
  "LAUNCHER_LOG env = path_join (LOG_DIR env) ''launcher.log''"

definition DISPLAY :: "environ \<Rightarrow> string" where
  "DISPLAY env = (case env ''VNC_DISPLAY'' of None \<Rightarrow> '':1'' | Some d \<Rightarrow> d)"

section \<open>Validation\<close>

definition as_str :: "json \<Rightarrow> string option" where
  "as_str v = (case v of JStr s \<Rightarrow> Some s | _ \<Rightarrow> None)"

definition is_bool :: "json \<Rightarrow> bool" where
  "is_bool v = (case v of JBool b \<Rightarrow> True | _ \<Rightarrow> False)"

text \<open>The default code of \<^verbatim>\<open>ValidationError\<close> is 1001.\<close>

definition invalid :: "string \<Rightarrow> error + 'a" where
  "invalid message = Inl (ValidationError message 1001)"

definition bind_err :: "error + 'a \<Rightarrow> ('a \<Rightarrow> error + 'b) \<Rightarrow> error + 'b" where
  "bind_err m f = (case m of Inl e \<Rightarrow> Inl e | Inr x \<Rightarrow> f x)"

text \<open>
  \<^verbatim>\<open>isinstance(x, int)\<close> holds of booleans too, so \<^term>\<open>py_num\<close> is the test and the
  value of \<^verbatim>\<open>1 <= port <= 65535\<close>; the object stored is the one received.
\<close>

definition validate_proxy_obj :: "json \<Rightarrow> string \<Rightarrow> error + pydict" where
  "validate_proxy_obj proxy_obj pfx =
     (case proxy_obj of
        JDict d \<Rightarrow>
          let host = dict_get d ''host''; port = dict_get d ''port'' in
          if (case as_str host of None \<Rightarrow> True | Some h \<Rightarrow> strip h = [])
          then invalid (pfx @ ''.host is required'')
          else if (case py_num port of None \<Rightarrow> True | Some n \<Rightarrow> \<not> (1 \<le> n \<and> n \<le> 65535))
          then invalid (pfx @ ''.port must be between 1 and 65535'')
          else
            let username = dict_get d ''username''; password = dict_get d ''password'' in
            if username \<noteq> JNull \<and> as_str username = None
            then invalid (pfx @ ''.username must be string'')
            else if password \<noteq> JNull \<and> as_str password = None
            then invalid (pfx @ ''.password must be string'')
            else if (case as_str username of None \<Rightarrow> False | Some u \<Rightarrow> length u > 256)
            then invalid (pfx @ ''.username too long'')
            else if (case as_str password of None \<Rightarrow> False | Some u \<Rightarrow> length u > 256)
            then invalid (pfx @ ''.password too long'')
            else Inr [(''host'', JStr (strip (case as_str host of None \<Rightarrow> [] | Some h \<Rightarrow> h))),
                      (''port'', port),
                      (''username'', if username \<noteq> JNull then username else JStr []),
                      (''password'', if password \<noteq> JNull then password else JStr [])]
      | _ \<Rightarrow> invalid (pfx @ '' must be object''))"

definition validate_proxy_key :: "pydict \<Rightarrow> pydict \<Rightarrow> string \<Rightarrow> error + pydict" where
  "validate_proxy_key proxy result key =
     (if has_key proxy key \<and> dict_get proxy key \<noteq> JNull
      then bind_err (validate_proxy_obj (dict_get proxy key) (''proxy.'' @ key))
             (\<lambda>p. Inr (AList.update key (JDict p) result))
      else Inr result)"

definition validate_proxy :: "json \<Rightarrow> error + pydict" where
  "validate_proxy proxy =
     (case proxy of
        JNull \<Rightarrow> Inr []
      | JDict p \<Rightarrow>
          bind_err (validate_proxy_key p [] ''http'') (\<lambda>r1.
          bind_err (validate_proxy_key p r1 ''https'') (\<lambda>r2.
          validate_proxy_key p r2 ''socks5''))
      | _ \<Rightarrow> invalid ''proxy must be object'')"

text \<open>
  \<^verbatim>\<open>validate_account_payload\<close> fills \<^verbatim>\<open>cleaned\<close> field by field, in the order of
  the source; each step below is one of its \<^verbatim>\<open>if\<close> blocks.
\<close>

definition clean_name :: "pydict \<Rightarrow> bool \<Rightarrow> pydict \<Rightarrow> error + pydict" where
  "clean_name data partial cleaned =
     (if has_key data ''name'' \<or> \<not> partial
      then (case as_str (dict_get data ''name'') of
              None \<Rightarrow> invalid ''name is required''
            | Some name \<Rightarrow>
                if strip name = [] then invalid ''name is required''
                else if length name > 128 then invalid ''name too long''
                else Inr (AList.update ''name'' (JStr (strip name)) cleaned))
      else Inr cleaned)"

definition clean_proxy :: "pydict \<Rightarrow> pydict \<Rightarrow> error + pydict" where
  "clean_proxy data cleaned =
     (if has_key data ''proxy''
      then bind_err (validate_proxy (dict_get data ''proxy''))
             (\<lambda>p. Inr (AList.update ''proxy'' (JDict p) cleaned))
      else Inr cleaned)"

definition clean_autostart :: "pydict \<Rightarrow> bool \<Rightarrow> pydict \<Rightarrow> error + pydict" where
  "clean_autostart data partial cleaned =
     (let autostart = dict_get data ''autostart'' in
      if has_key data ''autostart''
      then (if \<not> is_bool autostart then invalid ''autostart must be boolean''
            else Inr (AList.update ''autostart'' autostart cleaned))
      else if \<not> partial then Inr (AList.update ''autostart'' (JBool False) cleaned)
      else Inr cleaned)"

definition clean_default_url :: "pydict \<Rightarrow> bool \<Rightarrow> pydict \<Rightarrow> error + pydict" where
  "clean_default_url data partial cleaned =
     (if has_key data ''default_url''
      then (let default_url = dict_get data ''default_url'' in
            if default_url \<noteq> JNull
            then (case as_str default_url of
                    None \<Rightarrow> invalid ''default_url must be string''
                  | Some u \<Rightarrow>
                      let u' = strip u in
                      if u' \<noteq> [] \<and> \<not> (prefix ''http://'' (lower u') \<or> prefix ''https://'' (lower u'))
                      then invalid ''default_url must start with http or https''
                      else Inr (AList.update ''default_url'' (JStr u') cleaned))
            else Inr (AList.update ''default_url'' (JStr []) cleaned))
      else if \<not> partial then Inr (AList.update ''default_url'' (JStr []) cleaned)
      else Inr cleaned)"

definition clean_notes :: "pydict \<Rightarrow> bool \<Rightarrow> pydict \<Rightarrow> error + pydict" where
  "clean_notes data partial cleaned =
     (if has_key data ''notes''
      then (let notes = dict_get data ''notes'' in
            if notes \<noteq> JNull \<and> as_str notes = None then invalid ''notes must be string''
            else if (case as_str notes of None \<Rightarrow> False | Some n \<Rightarrow> length n > 1024)
            then invalid ''notes too long''
            else Inr (AList.update ''notes'' (if truthy notes then notes else JStr []) cleaned))
      else if \<not> partial then Inr (AList.update ''notes'' (JStr []) cleaned)
      else Inr cleaned)"

definition clean_version :: "pydict \<Rightarrow> pydict \<Rightarrow> error + pydict" where
  "clean_version data cleaned =
     (if has_key data ''version''
      then (let version = dict_get data ''version'' in
            if py_num version = None then invalid ''version must be int''
            else Inr (AList.update ''version'' version cleaned))
      else Inr cleaned)"

definition validate_account_payload :: "json \<Rightarrow> bool \<Rightarrow> error + pydict" where
  "validate_account_payload data partial =
     (case data of
        JDict d \<Rightarrow>
          bind_err (clean_name d partial []) (\<lambda>c1.
          bind_err (clean_proxy d c1) (\<lambda>c2.
          bind_err (clean_autostart d partial c2) (\<lambda>c3.
          bind_err (clean_default_url d partial c3) (\<lambda>c4.
          bind_err (clean_notes d partial c4) (\<lambda>c5.
          clean_version d c5)))))
      | _ \<Rightarrow> invalid ''payload must be object'')"

section \<open>Account creation\<close>

text \<open>
  \<^verbatim>\<open>generate_account_id\<close> reads the clock and draws three random bytes; both are inputs
  here: \<^verbatim>\<open>ts\<close> is \<^verbatim>\<open>int(time.time() * 1000)\<close>.
\<close>

definition generate_account_id :: "int \<Rightarrow> nat \<times> nat \<times> nat \<Rightarrow> string" where
  "generate_account_id ts rnd = ''acc-'' @ str_int ts @ ''-'' @ token_hex rnd"

definition build_account ::
  "environ \<Rightarrow> int \<Rightarrow> nat \<times> nat \<times> nat \<Rightarrow> pydict \<Rightarrow> error + pydict" where
  "build_account env ts rnd cleaned =
     (let account_id = generate_account_id ts rnd;
          profile_dir = path_join (PROFILES_DIR env) account_id
      in bind_err (dict_item cleaned ''name'') (\<lambda>name.
           Inr [(''id'', JStr account_id),
                (''name'', name),
                (''profile_dir'', JStr profile_dir),
                (''proxy'', dict_get_default cleaned ''proxy'' (JDict [])),
                (''autostart'', dict_get_default cleaned ''autostart'' (JBool False)),
                (''default_url'', dict_get_default cleaned ''default_url'' (JStr [])),
                (''notes'', dict_get_default cleaned ''notes'' (JStr [])),
                (''version'', JInt 1)]))"

section \<open>Profile provisioning\<close>

text \<open>
  The \<^verbatim>\<open>json\<close> module is outside the repository. Its three uses are parameters of the
  model: \<^verbatim>\<open>json.load\<close> on the text of the store file (\<open>None\<close> stands for
  \<^verbatim>\<open>JSONDecodeError\<close>), \<^verbatim>\<open>json.dumps(value)\<close> in \<^verbatim>\<open>_user_pref\<close>, and
  \<^verbatim>\<open>json.dump(accounts, f, ensure_ascii=False, indent=2)\<close> in \<^verbatim>\<open>save_accounts\<close>.
\<close>

record json_lib =
  loads :: "string \<Rightarrow> json option"
  dumps :: "json \<Rightarrow> string"
  dumps_indent :: "json \<Rightarrow> string"

definition user_pref :: "json_lib \<Rightarrow> string \<Rightarrow> json \<Rightarrow> string" where
  "user_pref J key v =
     (let val = (case v of
                   JBool b \<Rightarrow> (if b then ''true'' else ''false'')
                 | JInt i \<Rightarrow> str_int i
                 | _ \<Rightarrow> dumps J v)
      in ''user_pref('' @ [CHR 0x22] @ key @ [CHR 0x22] @ '', '' @ val @ '');'')"

text \<open>
  \<^verbatim>\<open>key in obj\<close> and \<^verbatim>\<open>obj[key]\<close> for a string key and any object: membership is by
  key in a dictionary, by element in a list and by substring in a string; only a
  dictionary can be subscripted with a string.
\<close>

definition py_contains :: "json \<Rightarrow> string \<Rightarrow> error + bool" where
  "py_contains obj key =
     (case obj of
        JDict d \<Rightarrow> Inr (has_key d key)
      | JList xs \<Rightarrow> Inr (list_ex (\<lambda>x. py_eq x (JStr key)) xs)
      | JStr s \<Rightarrow> Inr (sublist key s)
      | _ \<Rightarrow> Inl TypeError)"

definition py_subscript :: "json \<Rightarrow> string \<Rightarrow> error + json" where
  "py_subscript obj key =
     (case obj of JDict d \<Rightarrow> dict_item d key | _ \<Rightarrow> Inl TypeError)"

text \<open>
  The two \<^verbatim>\<open>lines.append\<close> calls that \<^verbatim>\<open>write_user_js\<close> makes for one protocol entry:
  \<^verbatim>\<open>entry = proxy[key]\<close>, then the preference of \<^verbatim>\<open>entry["host"]\<close> and of
  \<^verbatim>\<open>entry["port"]\<close>.
\<close>

definition host_port_lines ::
  "json_lib \<Rightarrow> json \<Rightarrow> string \<Rightarrow> string \<Rightarrow> string \<Rightarrow> error + string list" where
  "host_port_lines J proxy key host_pref port_pref =
     bind_err (py_subscript proxy key) (\<lambda>entry.
     bind_err (py_subscript entry ''host'') (\<lambda>host.
     bind_err (py_subscript entry ''port'') (\<lambda>port.
       Inr [user_pref J host_pref host, user_pref J port_pref port])))"

text \<open>
  The list \<^verbatim>\<open>lines\<close> that \<^verbatim>\<open>write_user_js\<close> builds from \<^verbatim>\<open>account.get("proxy") or {}\<close>
  before it opens the file.
\<close>

definition proxy_pref_lines :: "json_lib \<Rightarrow> pydict \<Rightarrow> error + string list" where
  "proxy_pref_lines J account =
     (let proxy = (if truthy (dict_get account ''proxy'') then dict_get account ''proxy''
                   else JDict [])
      in if truthy proxy
         then
           bind_err (py_contains proxy ''http'') (\<lambda>has_http.
           bind_err (if has_http
                     then host_port_lines J proxy ''http''
                            ''network.proxy.http'' ''network.proxy.http_port''
                     else Inr []) (\<lambda>http_lines.
           bind_err (py_contains proxy ''https'') (\<lambda>has_https.
           bind_err (if has_https
                     then host_port_lines J proxy ''https''
                            ''network.proxy.ssl'' ''network.proxy.ssl_port''
                     else bind_err (py_contains proxy ''http'') (\<lambda>has_http'.
                            if has_http'
                            then host_port_lines J proxy ''http''
                                   ''network.proxy.ssl'' ''network.proxy.ssl_port''
                            else Inr [])) (\<lambda>ssl_lines.
           bind_err (py_contains proxy ''socks5'') (\<lambda>has_socks.
           bind_err (if has_socks
                     then bind_err (host_port_lines J proxy ''socks5''
                                      ''network.proxy.socks'' ''network.proxy.socks_port'')
                            (\<lambda>ls. Inr (ls @ [user_pref J ''network.proxy.socks_version'' (JInt 5),
                                             user_pref J ''network.proxy.socks_remote_dns''
                                               (JBool True)]))
                     else Inr []) (\<lambda>socks_lines.
             Inr ([user_pref J ''network.proxy.type'' (JInt 1),
                   user_pref J ''network.proxy.no_proxies_on'' (JStr [])]
                  @ http_lines @ ssl_lines @ socks_lines)))))))
         else Inr [user_pref J ''network.proxy.type'' (JInt 0),
                   user_pref J ''network.proxy.no_proxies_on'' (JStr [])])"

definition user_js_text :: "string list \<Rightarrow> string" where
  "user_js_text lines =
     ''// Generated by launcher, do not edit'' @ [CHR 0x0A] @
     concat (map (\<lambda>line. line @ [CHR 0x0A]) lines)"





text \<open>
  A \<^verbatim>\<open>json\<close> module that knows a finite table of documents: it decodes each text of the
  table to its value and encodes each value of the table as its text. The examples below
  run on such tables, whose rows are what Python's module gives.
\<close>

definition json_of_table :: "(string \<times> json) list \<Rightarrow> json_lib" where
  "json_of_table docs =
     \<lparr>loads = map_of docs,
      dumps = (\<lambda>v. case map_of (map (\<lambda>row. (snd row, fst row)) docs) v of
                      None \<Rightarrow> ''null'' | Some t \<Rightarrow> t),
      dumps_indent = (\<lambda>v. case map_of (map (\<lambda>row. (snd row, fst row)) docs) v of
                      None \<Rightarrow> ''null'' | Some t \<Rightarrow> t)\<rparr>"

section \<open>The machine: files, directories and processes\<close>

text \<open>
  The registry reads and writes files, makes and removes directories, and starts and
  looks up processes. The state of the machine is a record: the environment variables,
  the text of every regular file, the set of directories, the argument vector of every
  live process, an oracle telling for which argument vectors \<^verbatim>\<open>subprocess.Popen\<close>
  succeeds there, and the list of the changing calls made so far. File-system calls are
  modelled where they succeed; \<^verbatim>\<open>Popen\<close> can fail.
\<close>

datatype effect =
    Makedirs string
  | WriteFile string string
  | OpenAppend string
  | Rmtree string
  | Popen "string list"

record world =
  env_vars :: environ
  files :: "string \<Rightarrow> string option"
  dirs :: "string set"
  procs :: "string list list"
  popen_ok :: "string list \<Rightarrow> bool"
  effects :: "effect list"

text \<open>\<^verbatim>\<open>os.makedirs(p, exist_ok=True)\<close>.\<close>

definition makedirs :: "string \<Rightarrow> world \<Rightarrow> world" where
  "makedirs p w = w\<lparr>dirs := insert p (dirs w), effects := effects w @ [Makedirs p]\<rparr>"

text \<open>\<^verbatim>\<open>os.path.exists(p)\<close>.\<close>

definition path_exists :: "world \<Rightarrow> string \<Rightarrow> bool" where
  "path_exists w p = (files w p \<noteq> None \<or> p \<in> dirs w)"

text \<open>\<^verbatim>\<open>open(p, "w")\<close> followed by one \<^verbatim>\<open>write\<close> of the whole text.\<close>

definition write_file :: "string \<Rightarrow> string \<Rightarrow> world \<Rightarrow> world" where
  "write_file p t w = w\<lparr>files := (files w)(p \<mapsto> t), effects := effects w @ [WriteFile p t]\<rparr>"

text \<open>\<^verbatim>\<open>open(p, "a")\<close>: the file is created empty when it is missing.\<close>

definition open_append :: "string \<Rightarrow> world \<Rightarrow> world" where
  "open_append p w =
     w\<lparr>files := (case files w p of None \<Rightarrow> (files w)(p \<mapsto> []) | Some t \<Rightarrow> files w),
       effects := effects w @ [OpenAppend p]\<rparr>"

text \<open>
  \<^verbatim>\<open>shutil.rmtree(p, ignore_errors=True)\<close>: a directory goes with everything under it;
  on anything else the call fails and the failure is ignored.
\<close>

definition under :: "string \<Rightarrow> string \<Rightarrow> bool" where
  "under p q = (q = p \<or> prefix (p @ ''/'') q)"

definition rmtree :: "string \<Rightarrow> world \<Rightarrow> world" where
  "rmtree p w =
     (if p \<in> dirs w
      then w\<lparr>files := (\<lambda>f. if under p f then None else files w f),
             dirs := {d \<in> dirs w. \<not> under p d},
             effects := effects w @ [Rmtree p]\<rparr>
      else w\<lparr>effects := effects w @ [Rmtree p]\<rparr>)"

text \<open>
  \<^verbatim>\<open>pgrep -f pattern\<close> exits with 0 when the pattern matches the command line of a live
  process. The patterns here are profile paths, read as plain text: the match is
  containment in the command line, as section 4.1 of the specification has it.
\<close>

fun cmdline :: "string list \<Rightarrow> string" where
  "cmdline [] = []"
| "cmdline [a] = a"
| "cmdline (a # b # rest) = a @ '' '' @ cmdline (b # rest)"

definition pgrep :: "string \<Rightarrow> world \<Rightarrow> bool" where
  "pgrep pattern w = list_ex (\<lambda>argv. sublist pattern (cmdline argv)) (procs w)"

section \<open>Account store\<close>

definition ensure_data_dirs :: "world \<Rightarrow> world" where
  "ensure_data_dirs w =
     (let w1 = makedirs (DATA_DIR (env_vars w)) w;
          w2 = makedirs (PROFILES_DIR (env_vars w)) w1;
          w3 = makedirs (LOG_DIR (env_vars w)) w2
      in if \<not> path_exists w3 (ACCOUNTS_FILE (env_vars w))
         then write_file (ACCOUNTS_FILE (env_vars w)) ''[]'' w3
         else w3)"

text \<open>
  \<^verbatim>\<open>load_accounts\<close>: \<^verbatim>\<open>OSError\<close> stands for \<^verbatim>\<open>open\<close> failing because the path is not a
  regular file, which after \<^verbatim>\<open>ensure_data_dirs\<close> means it is a directory.
\<close>

definition load_accounts :: "json_lib \<Rightarrow> world \<Rightarrow> (error + json) \<times> world" where
  "load_accounts J w =
     (let w1 = ensure_data_dirs w
      in case files w1 (ACCOUNTS_FILE (env_vars w)) of
           None \<Rightarrow> (Inl OSError, w1)
         | Some text \<Rightarrow>
             (case loads J text of
                None \<Rightarrow> (Inl (ValidationError ''accounts.json is not valid JSON'' 1006), w1)
              | Some data \<Rightarrow> (Inr data, w1)))"

definition save_accounts :: "json_lib \<Rightarrow> json \<Rightarrow> world \<Rightarrow> world" where
  "save_accounts J accounts w =
     write_file (ACCOUNTS_FILE (env_vars w)) (dumps_indent J accounts) (ensure_data_dirs w)"

text \<open>
  \<^verbatim>\<open>for item in accounts\<close> for any object: a list gives its elements, a dictionary its
  keys, a string its characters; nothing else can be iterated.
\<close>

definition py_iter :: "json \<Rightarrow> error + json list" where
  "py_iter obj =
     (case obj of
        JList xs \<Rightarrow> Inr xs
      | JDict d \<Rightarrow> Inr (map (\<lambda>kv. JStr (fst kv)) d)
      | JStr s \<Rightarrow> Inr (map (\<lambda>c. JStr [c]) s)
      | _ \<Rightarrow> Inl TypeError)"

text \<open>Only a dictionary has \<^verbatim>\<open>.get\<close>; on every other object it is an \<^verbatim>\<open>AttributeError\<close>.\<close>

fun find_in :: "json list \<Rightarrow> string \<Rightarrow> error + pydict option" where
  "find_in [] account_id = Inr None"
| "find_in (item # rest) account_id =
     (case item of
        JDict d \<Rightarrow>
          if py_eq (dict_get d ''id'') (JStr account_id) then Inr (Some d)
          else find_in rest account_id
      | _ \<Rightarrow> Inl AttributeError)"

definition find_account :: "json \<Rightarrow> string \<Rightarrow> error + pydict option" where
  "find_account accounts account_id =
     bind_err (py_iter accounts) (\<lambda>items. find_in items account_id)"

text \<open>\<^verbatim>\<open>not target\<close>: no account, or an empty dictionary.\<close>

definition not_target :: "pydict option \<Rightarrow> bool" where
  "not_target target = (case target of None \<Rightarrow> True | Some d \<Rightarrow> d = [])"

section \<open>Lifecycle supervisor\<close>

definition as_path :: "json \<Rightarrow> error + string" where
  "as_path v = (case v of JStr s \<Rightarrow> Inr s | _ \<Rightarrow> Inl TypeError)"

text \<open>\<^verbatim>\<open>account["profile_dir"]\<close>, given to a call that takes a path.\<close>

definition profile_dir_of :: "pydict \<Rightarrow> error + string" where
  "profile_dir_of account = bind_err (dict_item account ''profile_dir'') as_path"

definition write_user_js :: "json_lib \<Rightarrow> pydict \<Rightarrow> world \<Rightarrow> (error + unit) \<times> world" where
  "write_user_js J account w =
     (case profile_dir_of account of
        Inl e \<Rightarrow> (Inl e, w)
      | Inr profile_dir \<Rightarrow>
          let w1 = makedirs profile_dir w
          in (case proxy_pref_lines J account of
                Inl e \<Rightarrow> (Inl e, w1)
              | Inr lines \<Rightarrow>
                  (Inr (), write_file (path_join profile_dir ''user.js'')
                             (user_js_text lines) w1)))"

definition ensure_profile :: "json_lib \<Rightarrow> pydict \<Rightarrow> world \<Rightarrow> (error + unit) \<times> world" where
  "ensure_profile J account w =
     (case profile_dir_of account of
        Inl e \<Rightarrow> (Inl e, w)
      | Inr profile_dir \<Rightarrow> write_user_js J account (makedirs profile_dir w))"

definition log_file :: "world \<Rightarrow> world" where
  "log_file w = open_append (LAUNCHER_LOG (env_vars w)) (makedirs (LOG_DIR (env_vars w)) w)"

definition is_running :: "string \<Rightarrow> world \<Rightarrow> bool" where
  "is_running profile_dir w = pgrep profile_dir w"



definition delete_profile_dir :: "string \<Rightarrow> world \<Rightarrow> world" where
  "delete_profile_dir path w = (if path_exists w path then rmtree path w else w)"

section \<open>Service layer\<close>

text \<open>
  The view functions of \<^verbatim>\<open>app/admin/app.py\<close> return \<^verbatim>\<open>api_response(...)\<close>; an exception
  that leaves the view function is the left summand.
\<close>

record response =
  code :: nat
  message :: string
  data :: json
  http_status :: nat

definition api_response :: "nat \<Rightarrow> string \<Rightarrow> json \<Rightarrow> nat \<Rightarrow> response" where
  "api_response c m d h = \<lparr>code = c, message = m, data = d, http_status = h\<rparr>"

definition serialize_account :: "pydict \<Rightarrow> bool \<Rightarrow> world \<Rightarrow> error + pydict" where
  "serialize_account acc_obj with_running w =
     (if with_running
      then bind_err (profile_dir_of acc_obj)
             (\<lambda>pd. Inr (AList.update ''running'' (JBool (is_running pd w)) acc_obj))
      else Inr acc_obj)"

text \<open>\<^verbatim>\<open>request.get_json(silent=True) or {}\<close>; \<open>None\<close> is a body that is not JSON.\<close>

definition request_payload :: "json option \<Rightarrow> json" where
  "request_payload body =
     (case body of None \<Rightarrow> JDict [] | Some p \<Rightarrow> if truthy p then p else JDict [])"

text \<open>
  \<^verbatim>\<open>update_account_obj\<close> changes the dictionary that \<^verbatim>\<open>find_account\<close> returned, which is
  the first element of \<^verbatim>\<open>items\<close> with that id; \<^verbatim>\<open>save_accounts(items)\<close> then writes the
  list with that element changed.
\<close>

fun replace_first :: "json list \<Rightarrow> string \<Rightarrow> pydict \<Rightarrow> json list" where
  "replace_first [] account_id updated = []"
| "replace_first (item # rest) account_id updated =
     (case item of
        JDict d \<Rightarrow>
          if py_eq (dict_get d ''id'') (JStr account_id) then JDict updated # rest
          else item # replace_first rest account_id updated
      | _ \<Rightarrow> item # replace_first rest account_id updated)"

definition with_target :: "json \<Rightarrow> string \<Rightarrow> pydict \<Rightarrow> json" where
  "with_target items account_id updated =
     (case items of JList xs \<Rightarrow> JList (replace_first xs account_id updated) | _ \<Rightarrow> items)"

definition update_account ::
  "json_lib \<Rightarrow> string \<Rightarrow> json option \<Rightarrow> world \<Rightarrow> (error + response) \<times> world" where
  "update_account J account_id body w =
     (case validate_account_payload (request_payload body) True of
        Inl e \<Rightarrow> (Inl e, w)
      | Inr cleaned \<Rightarrow>
          (case load_accounts J w of
             (Inl e, w1) \<Rightarrow> (Inl e, w1)
           | (Inr items, w1) \<Rightarrow>
               (case find_account items account_id of
                  Inl e \<Rightarrow> (Inl e, w1)
                | Inr target \<Rightarrow>
                    (case target of
                       None \<Rightarrow> (Inr (api_response 1002 ''account not found'' JNull 404), w1)
                     | Some t \<Rightarrow>
                         if t = []
                         then (Inr (api_response 1002 ''account not found'' JNull 404), w1)
                         else
                           (case update_account_obj t cleaned (has_key cleaned ''version'') of
                              (Inl e, t') \<Rightarrow>
                                (case e of
                                   ValidationError m c \<Rightarrow>
                                     if c = 1007
                                     then (Inr (api_response 1007 ''version conflict''
                                                 (JDict [(''expected_version'',
                                                            dict_get cleaned ''version''),
                                                         (''actual_version'',
                                                            dict_get t' ''version'')])
                                                 409), w1)
                                     else (Inl e, w1)
                                 | _ \<Rightarrow> (Inl e, w1))
                            | (Inr updated, t') \<Rightarrow>
                                let w2 = save_accounts J
                                           (with_target items account_id updated) w1
                                in (case ensure_profile J updated w2 of
                                      (Inl e, w3) \<Rightarrow> (Inl e, w3)
                                    | (Inr u, w3) \<Rightarrow>
                                        (case serialize_account updated True w3 of
                                           Inl e \<Rightarrow> (Inl e, w3)
                                         | Inr acc \<Rightarrow>
                                             (Inr (api_response 0 ''ok''
                                                    (JDict [(''account'', JDict acc)]) 200),
                                              w3))))))))"

text \<open>\<^verbatim>\<open>[a for a in items if a.get("id") != account_id]\<close>.\<close>

fun without_id :: "json list \<Rightarrow> string \<Rightarrow> error + json list" where
  "without_id [] account_id = Inr []"
| "without_id (a # rest) account_id =
     (case a of
        JDict d \<Rightarrow>
          bind_err (without_id rest account_id) (\<lambda>kept.
            Inr (if py_eq (dict_get d ''id'') (JStr account_id) then kept else a # kept))
      | _ \<Rightarrow> Inl AttributeError)"

text \<open>
  \<^verbatim>\<open>delete_account\<close>; the second argument is the query parameter \<^verbatim>\<open>delete_profile\<close>,
  \<open>None\<close> when the request has none.
\<close>

definition delete_account ::
  "json_lib \<Rightarrow> string \<Rightarrow> string option \<Rightarrow> world \<Rightarrow> (error + response) \<times> world" where
  "delete_account J account_id arg w =
     (let delete_profile = (lower (case arg of None \<Rightarrow> ''false'' | Some a \<Rightarrow> a) = ''true'')
      in case load_accounts J w of
           (Inl e, w1) \<Rightarrow> (Inl e, w1)
         | (Inr items, w1) \<Rightarrow>
             (case find_account items account_id of
                Inl e \<Rightarrow> (Inl e, w1)
              | Inr target \<Rightarrow>
                  (case (if not_target target
                         then Inr (save_accounts J items w1,
                                   JStr (path_join (PROFILES_DIR (env_vars w)) account_id))
                         else bind_err (bind_err (py_iter items)
                                          (\<lambda>xs. without_id xs account_id))
                                (\<lambda>kept. Inr (save_accounts J (JList kept) w1,
                                              dict_get (case target of None \<Rightarrow> []
                                                        | Some t \<Rightarrow> t) ''profile_dir'')))
                   of
                     Inl e \<Rightarrow> (Inl e, w1)
                   | Inr (w2, profile_path) \<Rightarrow>
                       (case (if delete_profile
                              then bind_err (as_path profile_path)
                                     (\<lambda>p. Inr (delete_profile_dir p w2))
                              else Inr w2)
                        of
                          Inl e \<Rightarrow> (Inl e, w2)
                        | Inr w3 \<Rightarrow>
                            (Inr (api_response 0 ''ok''
                                   (JDict [(''result'',
                                              JStr (if not_target target
                                                    then ''already_deleted'' else ''deleted'')),
                                           (''delete_profile'', JBool delete_profile)])
                                   200),
                             w3)))))"




text \<open>
  The accounts of a list for which the loop calls \<^verbatim>\<open>start_account\<close>: those whose
  \<^verbatim>\<open>autostart\<close> is true, in the order of the list.
\<close>

definition autostart_accounts :: "json list \<Rightarrow> pydict list" where
  "autostart_accounts xs =
     concat (map (\<lambda>x. case x of
                         JDict d \<Rightarrow> if truthy (dict_get d ''autostart'') then [d] else []
                       | _ \<Rightarrow> []) xs)"

section \<open>Theorems\<close>

subsection \<open>Facts about the field merge\<close>

lemma map_of_merge_key:
  "map_of (merge_key cleaned account key) k =
     (if k = key \<and> map_of cleaned key \<noteq> None then map_of cleaned key else map_of account k)"
  by (auto simp: merge_key_def update_conv' split: option.splits)

lemma map_of_foldl_merge_key:
  "map_of (foldl (merge_key cleaned) account ks) k =
     (if k \<in> set ks \<and> map_of cleaned k \<noteq> None then map_of cleaned k else map_of account k)"
  by (induction ks arbitrary: account) (auto simp: map_of_merge_key)

lemma map_of_merged_version:
  "map_of (foldl (merge_key cleaned) account merged_keys) ''version'' = map_of account ''version''"
  by (subst map_of_foldl_merge_key) (simp add: merged_keys_def)

lemma update_account_obj_success:
  assumes "fst (update_account_obj account cleaned chk) = Inr a'"
  shows "\<exists>n. py_num (dict_get_default account ''version'' (JInt 1)) = Some n \<and>
             a' = AList.update ''version'' (JInt (n + 1))
                    (foldl (merge_key cleaned) account merged_keys)"
proof -
  let ?a1 = "foldl (merge_key cleaned) account merged_keys"
  have v: "dict_get_default ?a1 ''version'' (JInt 1) = dict_get_default account ''version'' (JInt 1)"
    by (simp add: dict_get_default_def map_of_merged_version)
  show ?thesis
  proof (cases "py_num (dict_get_default account ''version'' (JInt 1))")
    case None
    with assms v show ?thesis
      by (simp add: update_account_obj_def Let_def py_add_one_def split: if_splits)
  next
    case (Some n)
    with assms v show ?thesis
      by (simp add: update_account_obj_def Let_def py_add_one_def split: if_splits)
  qed
qed

lemma update_version_step:
  assumes "map_of account ''version'' = Some (JInt v)"
    and "fst (update_account_obj account cleaned chk) = Inr a'"
  shows "map_of a' ''version'' = Some (JInt (v + 1))"
  using update_account_obj_success[OF assms(2)] assms(1)
  by (auto simp: dict_get_default_def update_conv')

subsection \<open>The claims on the versioned update\<close>

text \<open>
  Claim C1. When a version check is requested and the patch carries a version that
  differs from the account's, the update raises \<^verbatim>\<open>ValidationError\<close> with code 1007 and
  the account dictionary is left exactly as it was.
\<close>

theorem update_stale_version_conflict:
  assumes "map_of cleaned ''version'' = Some cv"
    and "\<not> py_eq (dict_get account ''version'') cv"
  shows "update_account_obj account cleaned True =
           (Inl (ValidationError ''version conflict'' 1007), account)"
  using assms by (simp add: update_account_obj_def has_key_def version_differs_def)

theorem update_stale_version_conflict_witness:
  "update_account_obj [(''id'', JStr ''a''), (''name'', JStr ''old''), (''version'', JInt 3)]
       [(''name'', JStr ''new''), (''version'', JInt 2)] True =
     (Inl (ValidationError ''version conflict'' 1007),
      [(''id'', JStr ''a''), (''name'', JStr ''old''), (''version'', JInt 3)])"
  using update_stale_version_conflict
    [of "[(''name'', JStr ''new''), (''version'', JInt 2)]" "JInt 2"
        "[(''id'', JStr ''a''), (''name'', JStr ''old''), (''version'', JInt 3)]"]
  by (simp add: dict_get_def)

text \<open>
  Claim C2. Every successful update raises the version by exactly 1, so a run of N
  successful updates takes an account of version \<open>v\<close> to version \<open>v + N\<close>: from the
  version 1 of a new account to \<open>1 + N\<close>.
\<close>

theorem version_after_updates:
  assumes "map_of account ''version'' = Some (JInt v)"
    and "apply_updates account ps = Inr a'"
  shows "map_of a' ''version'' = Some (JInt (v + int (length ps)))"
  using assms
proof (induction ps arbitrary: account v)
  case Nil
  then show ?case by simp
next
  case (Cons p ps)
  from Cons.prems(2) obtain a1 where
    s: "fst (update_account_obj account (fst p) (snd p)) = Inr a1"
    and r: "apply_updates a1 ps = Inr a'"
    by (auto split: sum.splits)
  have "map_of a1 ''version'' = Some (JInt (v + 1))"
    using update_version_step[OF Cons.prems(1) s] .
  from Cons.IH[OF this r] show ?case by (simp add: algebra_simps)
qed

theorem version_after_updates_witness:
  "apply_updates [(''id'', JStr ''a''), (''version'', JInt 1)]
        [([(''name'', JStr ''n'')], False), ([(''version'', JInt 2)], True)] =
      Inr [(''id'', JStr ''a''), (''version'', JInt 3), (''name'', JStr ''n'')] \<and>
   map_of [(''id'', JStr ''a''), (''version'', JInt 3), (''name'', JStr ''n'')] ''version'' =
      Some (JInt (1 + 2))"
proof -
  have h1: "map_of [(''id'', JStr ''a''), (''version'', JInt 1)] ''version'' = Some (JInt 1)"
    by simp
  have h2: "apply_updates [(''id'', JStr ''a''), (''version'', JInt 1)]
        [([(''name'', JStr ''n'')], False), ([(''version'', JInt 2)], True)] =
      Inr [(''id'', JStr ''a''), (''version'', JInt 3), (''name'', JStr ''n'')]"
    by (simp add: update_account_obj_def merge_key_def merged_keys_def has_key_def
          version_differs_def dict_get_def dict_get_default_def py_add_one_def Let_def)
  from version_after_updates[OF h1 h2] h2 show ?thesis by simp
qed

lemma merge_key_delete_version:
  "key \<noteq> ''version'' \<Longrightarrow>
   merge_key (AList.delete ''version'' cleaned) account key = merge_key cleaned account key"
  by (simp add: merge_key_def delete_conv')

lemma foldl_merge_key_delete_version:
  "''version'' \<notin> set ks \<Longrightarrow>
   foldl (merge_key (AList.delete ''version'' cleaned)) account ks =
   foldl (merge_key cleaned) account ks"
  by (induction ks arbitrary: account) (auto simp: merge_key_delete_version)

lemma merged_without_version:
  "foldl (merge_key (AList.delete ''version'' cleaned)) account merged_keys =
   foldl (merge_key cleaned) account merged_keys"
  by (rule foldl_merge_key_delete_version) (simp add: merged_keys_def)

text \<open>
  Claim C9. A successful update never copies the patch's version into the account. The
  new version is the old one plus 1; every other key is either one of the five merged
  fields, taken from the patch when the patch has it, or unchanged; and the same update
  with the version removed from the patch gives the same account.
\<close>

theorem update_never_copies_patch_version:
  assumes "map_of account ''version'' = Some (JInt v)"
    and "fst (update_account_obj account cleaned chk) = Inr a'"
  shows "map_of a' ''version'' = Some (JInt (v + 1)) \<and>
         (\<forall>k. k \<noteq> ''version'' \<longrightarrow>
              map_of a' k = (if k \<in> set merged_keys \<and> map_of cleaned k \<noteq> None
                             then map_of cleaned k else map_of account k)) \<and>
         update_account_obj account (AList.delete ''version'' cleaned) chk = (Inr a', a')"
proof -
  from update_account_obj_success[OF assms(2)] assms(1)
  have a': "a' = AList.update ''version'' (JInt (v + 1))
                   (foldl (merge_key cleaned) account merged_keys)"
    by (auto simp: dict_get_default_def)
  have 1: "map_of a' ''version'' = Some (JInt (v + 1))"
    by (simp add: a' update_conv')
  have 2: "\<forall>k. k \<noteq> ''version'' \<longrightarrow>
              map_of a' k = (if k \<in> set merged_keys \<and> map_of cleaned k \<noteq> None
                             then map_of cleaned k else map_of account k)"
    by (simp add: a' update_conv' map_of_foldl_merge_key)
  have d: "dict_get_default (foldl (merge_key cleaned) account merged_keys) ''version'' (JInt 1)
             = JInt v"
    by (simp add: dict_get_default_def map_of_merged_version assms(1))
  have 3: "update_account_obj account (AList.delete ''version'' cleaned) chk = (Inr a', a')"
    by (simp add: update_account_obj_def has_key_def delete_conv' merged_without_version d
          py_add_one_def a' Let_def)
  from 1 2 3 show ?thesis by blast
qed

theorem update_never_copies_patch_version_witness:
  "fst (update_account_obj [(''id'', JStr ''a''), (''version'', JInt 3)]
          [(''name'', JStr ''n''), (''version'', JBool True)] False) =
     Inr [(''id'', JStr ''a''), (''version'', JInt 4), (''name'', JStr ''n'')] \<and>
   map_of [(''id'', JStr ''a''), (''version'', JInt 4), (''name'', JStr ''n'')] ''version'' =
     Some (JInt (3 + 1)) \<and>
   update_account_obj [(''id'', JStr ''a''), (''version'', JInt 3)]
          (AList.delete ''version'' [(''name'', JStr ''n''), (''version'', JBool True)]) False =
     (Inr [(''id'', JStr ''a''), (''version'', JInt 4), (''name'', JStr ''n'')],
      [(''id'', JStr ''a''), (''version'', JInt 4), (''name'', JStr ''n'')])"
proof -
  have h1: "map_of [(''id'', JStr ''a''), (''version'', JInt 3)] ''version'' = Some (JInt 3)"
    by simp
  have h2: "fst (update_account_obj [(''id'', JStr ''a''), (''version'', JInt 3)]
          [(''name'', JStr ''n''), (''version'', JBool True)] False) =
     Inr [(''id'', JStr ''a''), (''version'', JInt 4), (''name'', JStr ''n'')]"
    by (simp add: update_account_obj_def merge_key_def merged_keys_def
          dict_get_default_def py_add_one_def Let_def)
  from update_never_copies_patch_version[OF h1 h2] h2 show ?thesis by blast
qed

subsection \<open>Account creation\<close>

lemma digit_char_in: "digit_char n \<in> set ''0123456789''"
  unfolding digit_char_def by (rule nth_mem) simp

lemma hex_char_in: "hex_char n \<in> set ''0123456789abcdef''"
  unfolding hex_char_def by (rule nth_mem) simp

lemma str_nat_chars: "set (str_nat n) \<subseteq> set ''0123456789''"
proof (induction n rule: str_nat.induct)
  case (1 n)
  show ?case
  proof (cases "n < 10")
    case True
    then show ?thesis using digit_char_in[of n] by (subst str_nat.simps) simp
  next
    case False
    then show ?thesis using 1 digit_char_in[of n] by (subst str_nat.simps) simp
  qed
qed

lemma slash_not_in_str_int: "CHR ''/'' \<notin> set (str_int i)"
  using str_nat_chars[of "nat i"] str_nat_chars[of "nat (- i)"]
  by (auto simp: str_int_def)

lemma slash_not_in_token_hex: "CHR ''/'' \<notin> set (token_hex rnd)"
proof -
  have "CHR ''/'' \<noteq> hex_char n" for n
    using hex_char_in[of n] by auto
  then show ?thesis
    by (cases rnd) (auto simp: token_hex_def hex_byte_def)
qed

lemma slash_not_in_account_id: "CHR ''/'' \<notin> set (generate_account_id ts rnd)"
  using slash_not_in_str_int slash_not_in_token_hex
  by (simp add: generate_account_id_def)

lemma path_parts_not_Nil: "path_parts s \<noteq> []"
  by (induction s) (auto split: list.splits)

lemma path_parts_no_slash: "CHR ''/'' \<notin> set s \<Longrightarrow> path_parts s = [s]"
  by (induction s) auto

lemma path_parts_append:
  "path_parts (a @ CHR ''/'' # b) = path_parts a @ path_parts b"
proof (induction a)
  case Nil
  show ?case by simp
next
  case (Cons c cs)
  obtain p ps where "path_parts cs = p # ps"
    using path_parts_not_Nil[of cs] by (cases "path_parts cs") auto
  with Cons show ?case by simp
qed

lemma last_path_parts_append:
  "last (path_parts (a @ CHR ''/'' # b)) = last (path_parts b)"
  by (simp add: path_parts_append path_parts_not_Nil)

lemma last_path_parts_join:
  assumes "CHR ''/'' \<notin> set b"
  shows "last (path_parts (path_join a b)) = b"
proof -
  have nb: "\<not> prefix ''/'' b" using assms by (cases b) auto
  show ?thesis
  proof (cases "a = [] \<or> suffix ''/'' a")
    case True
    then show ?thesis
    proof
      assume "a = []"
      then show ?thesis using nb assms by (simp add: path_join_def path_parts_no_slash)
    next
      assume "suffix ''/'' a"
      then obtain a' where "a = a' @ ''/''" by (auto simp: suffix_def)
      then show ?thesis using nb assms True
        by (simp add: path_join_def last_path_parts_append path_parts_no_slash)
    qed
  next
    case False
    then show ?thesis using nb assms
      by (simp add: path_join_def last_path_parts_append path_parts_no_slash)
  qed
qed



lemma has_key_update: "has_key (AList.update k v c) k' = (k' = k \<or> has_key c k')"
  by (simp add: has_key_def update_conv')

lemma clean_name_has_name:
  "clean_name d False c = Inr c' \<Longrightarrow> has_key c' ''name''"
  by (auto simp: clean_name_def invalid_def has_key_update split: option.splits if_splits)

lemma clean_proxy_keeps: "clean_proxy d c = Inr c' \<Longrightarrow> has_key c k \<Longrightarrow> has_key c' k"
  by (auto simp: clean_proxy_def bind_err_def has_key_update split: if_splits sum.splits)

lemma clean_autostart_keeps: "clean_autostart d p c = Inr c' \<Longrightarrow> has_key c k \<Longrightarrow> has_key c' k"
  by (auto simp: clean_autostart_def invalid_def Let_def has_key_update split: if_splits)

lemma clean_default_url_keeps: "clean_default_url d p c = Inr c' \<Longrightarrow> has_key c k \<Longrightarrow> has_key c' k"
  by (auto simp: clean_default_url_def invalid_def Let_def has_key_update split: if_splits option.splits)

lemma clean_notes_keeps: "clean_notes d p c = Inr c' \<Longrightarrow> has_key c k \<Longrightarrow> has_key c' k"
  by (auto simp: clean_notes_def invalid_def Let_def has_key_update split: if_splits)

lemma clean_version_keeps: "clean_version d c = Inr c' \<Longrightarrow> has_key c k \<Longrightarrow> has_key c' k"
  by (auto simp: clean_version_def invalid_def Let_def has_key_update split: if_splits)

lemma bind_err_Inr: "bind_err m f = Inr y \<Longrightarrow> \<exists>x. m = Inr x \<and> f x = Inr y"
  by (cases m) (auto simp: bind_err_def)

lemma valid_payload_has_name:
  assumes "validate_account_payload payload False = Inr cleaned"
  shows "has_key cleaned ''name''"
proof -
  from assms obtain d where d: "payload = JDict d"
    by (cases payload) (auto simp: validate_account_payload_def invalid_def)
  from assms[unfolded d validate_account_payload_def json.case]
  obtain c1 c2 c3 c4 c5 where
    "clean_name d False [] = Inr c1" "clean_proxy d c1 = Inr c2"
    "clean_autostart d False c2 = Inr c3" "clean_default_url d False c3 = Inr c4"
    "clean_notes d False c4 = Inr c5" "clean_version d c5 = Inr cleaned"
    by (auto dest!: bind_err_Inr)
  note c = this
  have "has_key c1 ''name''" using clean_name_has_name[OF c(1)] .
  then have "has_key c2 ''name''" using clean_proxy_keeps[OF c(2)] by simp
  then have "has_key c3 ''name''" using clean_autostart_keeps[OF c(3)] by simp
  then have "has_key c4 ''name''" using clean_default_url_keeps[OF c(4)] by simp
  then have "has_key c5 ''name''" using clean_notes_keeps[OF c(5)] by simp
  then show ?thesis using clean_version_keeps[OF c(6)] by simp
qed


text \<open>
  Claim C7. For every payload that \<^verbatim>\<open>validate_account_payload\<close> accepts for a creation
  (\<^verbatim>\<open>partial=False\<close>), \<^verbatim>\<open>build_account\<close> returns a record, whatever the clock and the
  random bytes are; its version is 1, and its profile directory is \<^verbatim>\<open>PROFILES_DIR\<close> joined
  with its own id, whose last path component is that id.
\<close>

theorem created_account_version_and_profile_dir:
  assumes "validate_account_payload payload False = Inr cleaned"
  shows "\<exists>account. build_account env ts rnd cleaned = Inr account \<and>
           map_of account ''version'' = Some (JInt 1) \<and>
           map_of account ''id'' = Some (JStr (generate_account_id ts rnd)) \<and>
           map_of account ''profile_dir'' =
             Some (JStr (path_join (PROFILES_DIR env) (generate_account_id ts rnd))) \<and>
           last (path_parts (path_join (PROFILES_DIR env) (generate_account_id ts rnd))) =
             generate_account_id ts rnd"
proof -
  from valid_payload_has_name[OF assms] obtain name where "map_of cleaned ''name'' = Some name"
    by (auto simp: has_key_def split: option.splits)
  then show ?thesis
    using last_path_parts_join[OF slash_not_in_account_id, of "PROFILES_DIR env" ts rnd]
    by (simp add: build_account_def dict_item_def bind_err_def Let_def)
qed

lemma account_id_example: "generate_account_id 17 (171, 0, 255) = ''acc-17-ab00ff''"
  by (simp add: generate_account_id_def str_int_def str_nat.simps token_hex_def hex_byte_def
        hex_char_def digit_char_def)

lemma validate_example:
  "validate_account_payload (JDict [(''name'', JStr '' bob '')]) False =
     Inr [(''name'', JStr ''bob''), (''autostart'', JBool False),
          (''default_url'', JStr []), (''notes'', JStr [])]"
  by (simp add: validate_account_payload_def clean_name_def clean_proxy_def clean_autostart_def
        clean_default_url_def clean_notes_def clean_version_def bind_err_def has_key_def
        dict_get_def as_str_def strip_def is_space_def)

theorem created_account_version_and_profile_dir_witness:
  "validate_account_payload (JDict [(''name'', JStr '' bob '')]) False =
     Inr [(''name'', JStr ''bob''), (''autostart'', JBool False),
          (''default_url'', JStr []), (''notes'', JStr [])] \<and>
   (\<exists>account. build_account (\<lambda>v. None) 17 (171, 0, 255)
        [(''name'', JStr ''bob''), (''autostart'', JBool False),
         (''default_url'', JStr []), (''notes'', JStr [])] = Inr account \<and>
      map_of account ''version'' = Some (JInt 1) \<and>
      map_of account ''id'' = Some (JStr ''acc-17-ab00ff'') \<and>
      map_of account ''profile_dir'' = Some (JStr ''/data/profiles/acc-17-ab00ff'') \<and>
      last (path_parts ''/data/profiles/acc-17-ab00ff'') = ''acc-17-ab00ff'')"
proof -
  have p: "path_join (PROFILES_DIR (\<lambda>v. None)) ''acc-17-ab00ff'' = ''/data/profiles/acc-17-ab00ff''"
    by (simp add: PROFILES_DIR_def DATA_DIR_def path_join_def suffix_to_prefix)
  from created_account_version_and_profile_dir[OF validate_example, of "\<lambda>v. None" 17 "(171, 0, 255)"]
  show ?thesis
    unfolding account_id_example p using validate_example by blast
qed

subsection \<open>Profile provisioning\<close>









subsection \<open>Account store\<close>

lemma path_join_relative:
  "\<not> prefix ''/'' b \<Longrightarrow>
   path_join a b = a @ (if a = [] \<or> suffix ''/'' a then [] else ''/'') @ b"
  by (simp add: path_join_def)

lemma accounts_file_not_a_made_dir:
  "ACCOUNTS_FILE env \<noteq> DATA_DIR env"
  "ACCOUNTS_FILE env \<noteq> PROFILES_DIR env"
  "ACCOUNTS_FILE env \<noteq> LOG_DIR env"
  by (simp_all add: ACCOUNTS_FILE_def PROFILES_DIR_def LOG_DIR_def path_join_relative)

lemma makedirs_fields [simp]:
  "files (makedirs p w) = files w"
  "dirs (makedirs p w) = insert p (dirs w)"
  "procs (makedirs p w) = procs w"
  "popen_ok (makedirs p w) = popen_ok w"
  "env_vars (makedirs p w) = env_vars w"
  "effects (makedirs p w) = effects w @ [Makedirs p]"
  by (simp_all add: makedirs_def)

lemma write_file_fields [simp]:
  "files (write_file p t w) = (files w)(p \<mapsto> t)"
  "dirs (write_file p t w) = dirs w"
  "procs (write_file p t w) = procs w"
  "popen_ok (write_file p t w) = popen_ok w"
  "env_vars (write_file p t w) = env_vars w"
  "effects (write_file p t w) = effects w @ [WriteFile p t]"
  by (simp_all add: write_file_def)

lemma ensure_data_dirs_files:
  "files (ensure_data_dirs w) (ACCOUNTS_FILE (env_vars w)) =
     (if path_exists w (ACCOUNTS_FILE (env_vars w)) then files w (ACCOUNTS_FILE (env_vars w))
      else Some ''[]'')"
  by (simp add: ensure_data_dirs_def Let_def path_exists_def accounts_file_not_a_made_dir)



lemma default_paths:
  "DATA_DIR (\<lambda>v. None) = ''/data''"
  "PROFILES_DIR (\<lambda>v. None) = ''/data/profiles''"
  "LOG_DIR (\<lambda>v. None) = ''/data/logs''"
  "ACCOUNTS_FILE (\<lambda>v. None) = ''/data/accounts.json''"
  "LAUNCHER_LOG (\<lambda>v. None) = ''/data/logs/launcher.log''"
  by (simp_all add: DATA_DIR_def PROFILES_DIR_def LOG_DIR_def ACCOUNTS_FILE_def LAUNCHER_LOG_def
        path_join_def suffix_to_prefix)


subsection \<open>Deleting an account that is not in the store\<close>

lemma ensure_data_dirs_env [simp]: "env_vars (ensure_data_dirs w) = env_vars w"
  by (simp add: ensure_data_dirs_def Let_def)

lemma load_accounts_world: "load_accounts J w = (r, w1) \<Longrightarrow> w1 = ensure_data_dirs w"
  by (auto simp: load_accounts_def Let_def split: option.splits)

lemma save_accounts_effects:
  "effects (save_accounts J items w) =
     effects (ensure_data_dirs w) @ [WriteFile (ACCOUNTS_FILE (env_vars w)) (dumps_indent J items)]"
  by (simp add: save_accounts_def)

lemma delete_profile_dir_effects:
  "\<exists>es. effects (delete_profile_dir p w) = effects w @ es"
  by (simp add: delete_profile_dir_def rmtree_def)

lemma delete_account_unknown:
  assumes "load_accounts J w = (Inr items, w1)"
    and "find_account items account_id = Inr None"
  shows "delete_account J account_id arg w =
           (Inr (api_response 0 ''ok''
                  (JDict [(''result'', JStr ''already_deleted''),
                          (''delete_profile'',
                           JBool (lower (case arg of None \<Rightarrow> ''false'' | Some a \<Rightarrow> a) = ''true''))])
                  200),
            (if lower (case arg of None \<Rightarrow> ''false'' | Some a \<Rightarrow> a) = ''true''
             then delete_profile_dir (path_join (PROFILES_DIR (env_vars w)) account_id)
                    (save_accounts J items w1)
             else save_accounts J items w1))"
  using assms
  by (simp add: delete_account_def Let_def not_target_def as_path_def bind_err_def)

text \<open>
  Claim C6, as the code has it. A delete request for an identifier that the store does
  not hold answers with code 0 and the result \<^verbatim>\<open>already_deleted\<close>; it writes the store
  file again with the list it has read; and when the request asks for it, it removes
  the directory of that name under \<^verbatim>\<open>PROFILES_DIR\<close> if there is one.
\<close>

theorem delete_unknown_id_saves_and_cleans:
  assumes "load_accounts J w = (Inr items, w1)"
    and "find_account items account_id = Inr None"
  shows "delete_account J account_id arg w =
           (Inr (api_response 0 ''ok''
                  (JDict [(''result'', JStr ''already_deleted''),
                          (''delete_profile'',
                           JBool (lower (case arg of None \<Rightarrow> ''false'' | Some a \<Rightarrow> a) = ''true''))])
                  200),
            (if lower (case arg of None \<Rightarrow> ''false'' | Some a \<Rightarrow> a) = ''true''
             then delete_profile_dir (path_join (PROFILES_DIR (env_vars w)) account_id)
                    (save_accounts J items w1)
             else save_accounts J items w1)) \<and>
         WriteFile (ACCOUNTS_FILE (env_vars w)) (dumps_indent J items)
           \<in> set (effects (snd (delete_account J account_id arg w)))"
proof -
  have w1: "w1 = ensure_data_dirs w" using load_accounts_world[OF assms(1)] .
  note eq = delete_account_unknown[OF assms, of arg]
  have "WriteFile (ACCOUNTS_FILE (env_vars w)) (dumps_indent J items)
          \<in> set (effects (save_accounts J items w1))"
    by (simp add: save_accounts_effects w1)
  moreover obtain es where
    "effects (delete_profile_dir (path_join (PROFILES_DIR (env_vars w)) account_id)
               (save_accounts J items w1)) = effects (save_accounts J items w1) @ es"
    using delete_profile_dir_effects by blast
  ultimately show ?thesis
    by (simp add: eq)
qed

lemma ensure_data_dirs_dirs:
  "dirs (ensure_data_dirs w) =
     insert (LOG_DIR (env_vars w)) (insert (PROFILES_DIR (env_vars w))
       (insert (DATA_DIR (env_vars w)) (dirs w)))"
  by (simp add: ensure_data_dirs_def Let_def)

lemma save_accounts_dirs: "dirs (save_accounts J items w) = dirs (ensure_data_dirs w)"
  by (simp add: save_accounts_def)

lemma lower_true: "lower ''true'' = ''true''" "lower ''false'' = ''false''"
  by (simp_all add: lower_def lower_char_def)

lemma empty_store_loads:
  "load_accounts (json_of_table [(''[]'', JList [])])
     \<lparr>env_vars = (\<lambda>v. None), files = [''/data/accounts.json'' \<mapsto> ''[]''], dirs = ds,
      procs = ps, popen_ok = ok, effects = es\<rparr> =
   (Inr (JList []),
    ensure_data_dirs \<lparr>env_vars = (\<lambda>v. None), files = [''/data/accounts.json'' \<mapsto> ''[]''],
      dirs = ds, procs = ps, popen_ok = ok, effects = es\<rparr>)"
  by (simp only: load_accounts_def Let_def ensure_data_dirs_files)
     (simp add: path_exists_def default_paths json_of_table_def)

lemma find_in_empty_store: "find_account (JList []) account_id = Inr None"
  by (simp add: find_account_def py_iter_def bind_err_def)

text \<open>
  The claim as it is stated fails on an empty store when a directory
  \<^verbatim>\<open>/data/profiles/ghost\<close> is left over: deleting \<^verbatim>\<open>ghost\<close> with
  \<^verbatim>\<open>delete_profile=true\<close> answers with code 0, writes the store file and removes the
  directory.
\<close>

theorem delete_unknown_id_counterexample:
  "find_account (JList []) ''ghost'' = Inr None \<and>
   fst (delete_account (json_of_table [(''[]'', JList [])]) ''ghost'' (Some ''true'')
          \<lparr>env_vars = (\<lambda>v. None), files = [''/data/accounts.json'' \<mapsto> ''[]''],
           dirs = {''/data/profiles/ghost''}, procs = [], popen_ok = (\<lambda>c. True),
           effects = []\<rparr>) =
     Inr (api_response 0 ''ok''
            (JDict [(''result'', JStr ''already_deleted''), (''delete_profile'', JBool True)])
            200) \<and>
   WriteFile ''/data/accounts.json'' ''[]''
     \<in> set (effects (snd (delete_account (json_of_table [(''[]'', JList [])]) ''ghost''
          (Some ''true'')
          \<lparr>env_vars = (\<lambda>v. None), files = [''/data/accounts.json'' \<mapsto> ''[]''],
           dirs = {''/data/profiles/ghost''}, procs = [], popen_ok = (\<lambda>c. True),
           effects = []\<rparr>))) \<and>
   ''/data/profiles/ghost''
     \<notin> dirs (snd (delete_account (json_of_table [(''[]'', JList [])]) ''ghost''
          (Some ''true'')
          \<lparr>env_vars = (\<lambda>v. None), files = [''/data/accounts.json'' \<mapsto> ''[]''],
           dirs = {''/data/profiles/ghost''}, procs = [], popen_ok = (\<lambda>c. True),
           effects = []\<rparr>))"
proof -
  let ?J = "json_of_table [(''[]'', JList [])]"
  let ?w = "\<lparr>env_vars = (\<lambda>v. None), files = [''/data/accounts.json'' \<mapsto> ''[]''],
           dirs = {''/data/profiles/ghost''}, procs = [], popen_ok = (\<lambda>c. True),
           effects = []\<rparr>"
  note eq = delete_account_unknown[OF
      empty_store_loads[of "{''/data/profiles/ghost''}" "[]" "\<lambda>c. True" "[]"]
      find_in_empty_store[of "''ghost''"], of "Some ''true''"]
  have p: "path_join (PROFILES_DIR (\<lambda>v. None)) ''ghost'' = ''/data/profiles/ghost''"
    by (simp add: default_paths path_join_def suffix_to_prefix)
  have d: "dumps_indent ?J (JList []) = ''[]''"
    by (simp add: json_of_table_def)
  have 1: "fst (delete_account ?J ''ghost'' (Some ''true'') ?w) =
     Inr (api_response 0 ''ok''
            (JDict [(''result'', JStr ''already_deleted''), (''delete_profile'', JBool True)])
            200)"
    by (simp add: eq lower_true)
  have s: "snd (delete_account ?J ''ghost'' (Some ''true'') ?w) =
             delete_profile_dir ''/data/profiles/ghost''
               (save_accounts ?J (JList []) (ensure_data_dirs ?w))"
    by (simp add: eq lower_true p)
  have ex: "path_exists (save_accounts ?J (JList []) (ensure_data_dirs ?w)) ''/data/profiles/ghost''"
    by (simp add: path_exists_def save_accounts_dirs ensure_data_dirs_dirs)
  have 2: "WriteFile ''/data/accounts.json'' ''[]''
     \<in> set (effects (snd (delete_account ?J ''ghost'' (Some ''true'') ?w)))"
    unfolding s
    by (simp add: delete_profile_dir_def ex rmtree_def save_accounts_effects d default_paths)
  have 3: "''/data/profiles/ghost'' \<notin> dirs (snd (delete_account ?J ''ghost'' (Some ''true'') ?w))"
    unfolding s
    by (simp add: delete_profile_dir_def ex rmtree_def under_def)
  from find_in_empty_store 1 2 3 show ?thesis by blast
qed

theorem delete_unknown_id_saves_and_cleans_witness:
  "fst (delete_account (json_of_table [(''[]'', JList [])]) ''ghost'' None
          \<lparr>env_vars = (\<lambda>v. None), files = [''/data/accounts.json'' \<mapsto> ''[]''],
           dirs = {}, procs = [], popen_ok = (\<lambda>c. True), effects = []\<rparr>) =
     Inr (api_response 0 ''ok''
            (JDict [(''result'', JStr ''already_deleted''), (''delete_profile'', JBool False)])
            200) \<and>
   WriteFile ''/data/accounts.json'' ''[]''
     \<in> set (effects (snd (delete_account (json_of_table [(''[]'', JList [])]) ''ghost'' None
          \<lparr>env_vars = (\<lambda>v. None), files = [''/data/accounts.json'' \<mapsto> ''[]''],
           dirs = {}, procs = [], popen_ok = (\<lambda>c. True), effects = []\<rparr>)))"
proof -
  have d: "dumps_indent (json_of_table [(''[]'', JList [])]) (JList []) = ''[]''"
    by (simp add: json_of_table_def)
  from delete_unknown_id_saves_and_cleans[OF
      empty_store_loads[of "{}" "[]" "\<lambda>c. True" "[]"]
      find_in_empty_store[of "''ghost''"], of None]
  show ?thesis
    by (simp add: lower_true d default_paths save_accounts_effects)
qed

subsection \<open>Starting an account twice\<close>

lemma open_append_fields [simp]:
  "dirs (open_append p w) = dirs w"
  "procs (open_append p w) = procs w"
  "popen_ok (open_append p w) = popen_ok w"
  "env_vars (open_append p w) = env_vars w"
  "effects (open_append p w) = effects w @ [OpenAppend p]"
  by (simp_all add: open_append_def)

lemma log_file_fields [simp]:
  "procs (log_file w) = procs w"
  "popen_ok (log_file w) = popen_ok w"
  "env_vars (log_file w) = env_vars w"
  by (simp_all add: log_file_def)


lemma is_running_procs: "procs w' = procs w \<Longrightarrow> is_running pd w' = is_running pd w"
  by (simp add: is_running_def pgrep_def)







subsection \<open>Bulk autostart\<close>




lemma autostart_accounts_simps [simp]:
  "autostart_accounts [] = []"
  "autostart_accounts (JDict d # xs) =
     (if truthy (dict_get d ''autostart'') then d # autostart_accounts xs
      else autostart_accounts xs)"
  by (simp_all add: autostart_accounts_def)



lemma ensure_data_dirs_fields [simp]:
  "procs (ensure_data_dirs w) = procs w"
  "popen_ok (ensure_data_dirs w) = popen_ok w"
  by (simp_all add: ensure_data_dirs_def Let_def)













end
